theory Spec2Isabelle
  imports Complex_Main "HOL-Library.Sublist" "HOL-Library.Log_Nat"
begin

section \<open>Python values\<close>

text \<open>
  A Python float is a finite value (every finite double is a rational number), an
  infinity or NaN. Comparisons of finite floats are exact, so the order of the
  rationals is the order of the floats.
\<close>

datatype pyfloat = Finite rat | PosInf | NegInf | NaN

text \<open>\<open>a <= b\<close> on floats: false as soon as one side is NaN.\<close>

fun fle :: "pyfloat \<Rightarrow> pyfloat \<Rightarrow> bool" where
  "fle NaN b = False"
| "fle a NaN = False"
| "fle NegInf b = True"
| "fle a PosInf = True"
| "fle (Finite a) (Finite b) = (a \<le> b)"
| "fle PosInf b = False"
| "fle a NegInf = False"

text \<open>\<open>a >= b\<close> on floats.\<close>

definition fge :: "pyfloat \<Rightarrow> pyfloat \<Rightarrow> bool" where
  "fge a b = fle b a"

text \<open>
  The values a decoded JSON document is made of. A dict is kept as the list of its
  items in insertion order.
\<close>

datatype pyval =
    PyNone
  | PyBool bool
  | PyInt int
  | PyFloat pyfloat
  | PyStr string
  | PyList "pyval list"
  | PyDict "(string \<times> pyval) list"

text \<open>The exceptions the modelled code can meet.\<close>

datatype py_exc =
    TypeError
  | AttributeError
  | NameError
  | ClientError
  | TimeoutError
  | ContentTypeError
  | JSONDecodeError
  | IndexError
  | IntegrityError
  | OverflowError
  | CancelledError

text \<open>
  \<open>except Exception\<close> catches every exception above but
  \<open>asyncio.CancelledError\<close>, which derives from \<open>BaseException\<close> only.
\<close>

definition is_Exception :: "py_exc \<Rightarrow> bool" where
  "is_Exception e = (e \<noteq> CancelledError)"

text \<open>Truth value of an object, as \<open>if x:\<close> tests it.\<close>

fun truthy :: "pyval \<Rightarrow> bool" where
  "truthy PyNone = False"
| "truthy (PyBool b) = b"
| "truthy (PyInt n) = (n \<noteq> 0)"
| "truthy (PyFloat f) = (f \<noteq> Finite 0)"
| "truthy (PyStr s) = (s \<noteq> [])"
| "truthy (PyList xs) = (xs \<noteq> [])"
| "truthy (PyDict kvs) = (kvs \<noteq> [])"

text \<open>
  The parts of the builtins \<open>float\<close> and \<open>str\<close> that depend on the decimal
  syntax and on the rounding of doubles are parameters: \<open>float\<close> of a string
  (\<open>None\<close> when it raises ValueError), \<open>float\<close> of an integer beyond 2^53
  (rounded, or \<open>None\<close> for OverflowError) and \<open>str\<close> of a value that is not a
  string.
\<close>

record builtins =
  str_to_float :: "string \<Rightarrow> pyfloat option"
  big_int_to_float :: "int \<Rightarrow> pyfloat option"
  repr_of :: "pyval \<Rightarrow> string"

text \<open>
  \<open>float(v)\<close>; \<open>None\<close> stands for TypeError, ValueError or OverflowError, all
  of them subclasses of \<open>Exception\<close>.
\<close>

fun py_float :: "builtins \<Rightarrow> pyval \<Rightarrow> pyfloat option" where
  "py_float B PyNone = None"
| "py_float B (PyBool b) = Some (Finite (if b then 1 else 0))"
| "py_float B (PyInt n) =
     (if \<bar>n\<bar> \<le> 2 ^ 53 then Some (Finite (of_int n)) else big_int_to_float B n)"
| "py_float B (PyFloat f) = Some f"
| "py_float B (PyStr s) = str_to_float B s"
| "py_float B (PyList xs) = None"
| "py_float B (PyDict kvs) = None"

text \<open>\<open>str(v)\<close>.\<close>

fun py_str :: "builtins \<Rightarrow> pyval \<Rightarrow> string" where
  "py_str B (PyStr s) = s"
| "py_str B v = repr_of B v"

text \<open>
  \<open>for x in v\<close>: the elements of a list, the keys of a dict, the characters of a
  string; \<open>None\<close> stands for the TypeError of a value that is not iterable.
\<close>

fun py_iter :: "pyval \<Rightarrow> pyval list option" where
  "py_iter (PyList xs) = Some xs"
| "py_iter (PyDict kvs) = Some (map (\<lambda>kv. PyStr (fst kv)) kvs)"
| "py_iter (PyStr s) = Some (map (\<lambda>c. PyStr [c]) s)"
| "py_iter v = None"

text \<open>
  \<open>v.get(key, default)\<close>; only a dict has the method, on any other value the
  attribute lookup raises AttributeError (\<open>None\<close>).
\<close>

fun py_get :: "pyval \<Rightarrow> string \<Rightarrow> pyval \<Rightarrow> pyval option" where
  "py_get (PyDict kvs) k dflt =
     Some (case map_of kvs k of None \<Rightarrow> dflt | Some v \<Rightarrow> v)"
| "py_get v k dflt = None"

section \<open>match\_service.py\<close>

subsection \<open>FootballApiClient\<close>

text \<open>
  What the HTTP exchange does, seen from the client: opening the session or sending
  the request raises, or a response with a status arrives whose body either decodes
  to a JSON value or makes \<open>resp.json()\<close> raise.
\<close>

datatype body_outcome = JsonRaises py_exc | JsonValue pyval

datatype http_outcome = RequestRaises py_exc | Response int body_outcome

text \<open>\<open>if not self.api_key\<close>: the variable is unset or empty.\<close>

definition key_missing :: "string option \<Rightarrow> bool" where
  "key_missing k = (case k of None \<Rightarrow> True | Some s \<Rightarrow> s = [])"

text \<open>The handler \<open>except Exception as e: ... return []\<close>.\<close>

definition except_Exception :: "py_exc \<Rightarrow> py_exc + pyval" where
  "except_Exception e = (if is_Exception e then Inr (PyList []) else Inl e)"

definition FootballApiClient_fetch_matches ::
  "string option \<Rightarrow> http_outcome \<Rightarrow> py_exc + pyval" where
  "FootballApiClient_fetch_matches api_key outcome =
     (if key_missing api_key then Inr (PyList [])
      else case outcome of
        RequestRaises e \<Rightarrow> except_Exception e
      | Response status body \<Rightarrow>
          if status \<noteq> 200 then Inr (PyList [])
          else (case body of
                  JsonRaises e \<Rightarrow> except_Exception e
                | JsonValue data \<Rightarrow> Inr data))"

subsection \<open>MatchService\<close>

text \<open>
  Times are naive UTC datetimes, counted in microseconds, the resolution of
  \<open>datetime\<close>. \<open>last_update\<close> is \<open>None\<close> until a fetch succeeds.
\<close>

record match_service =
  cache :: pyval
  last_update :: "int option"
  cache_ttl :: int

definition init_service :: "int \<Rightarrow> match_service" where
  "init_service ttl = \<lparr>cache = PyList [], last_update = None, cache_ttl = ttl\<rparr>"

text \<open>
  Rounding a rational to the nearest double, ties to the even significand: the value
  is scaled by the power of two that leaves 53 significant bits, rounded to an
  integer and scaled back. \<open>binary_exponent x\<close> is, for a positive \<open>x\<close>, the
  \<open>e\<close> with \<open>2^e \<le> x < 2^(e+1)\<close>, read off the number of bits of an integer. Overflow to infinity and the subnormal
  range are left out: the values rounded below lie between 10^-6 and 10^14 in
  magnitude, as the range of \<open>timedelta\<close> has it.
\<close>

definition pow2 :: "int \<Rightarrow> rat" where
  "pow2 k = (if 0 \<le> k then 2 ^ nat k else 1 / 2 ^ nat (- k))"

definition round_half_even :: "rat \<Rightarrow> int" where
  "round_half_even r =
     (let f = \<lfloor>r\<rfloor>; d = r - of_int f
      in if d < 1 / 2 then f
         else if 1 / 2 < d then f + 1
         else if even f then f else f + 1)"

definition binary_exponent :: "rat \<Rightarrow> int" where
  "binary_exponent x =
     (if 1 \<le> x then bitlen \<lfloor>x\<rfloor> - 1 else - bitlen (\<lceil>1 / x\<rceil> - 1))"

definition to_double :: "rat \<Rightarrow> rat" where
  "to_double x =
     (if x = 0 then 0
      else (let u = pow2 (binary_exponent \<bar>x\<bar> - 52)
            in sgn x * of_int (round_half_even (\<bar>x\<bar> / u)) * u))"

text \<open>
  \<open>(now - last).total_seconds()\<close>: the microseconds of the difference divided by
  10^6, a true division of two integers, which gives the nearest double. The result
  is then compared with the integer \<open>cache_ttl\<close>, and a float is compared with an
  integer by value.
\<close>

definition total_seconds :: "int \<Rightarrow> rat" where
  "total_seconds micros = to_double (of_int micros / 1000000)"

definition cache_fresh :: "int \<Rightarrow> match_service \<Rightarrow> bool" where
  "cache_fresh now svc =
     (case last_update svc of
        None \<Rightarrow> False
      | Some lu \<Rightarrow> total_seconds (now - lu) < of_int (cache_ttl svc))"

text \<open>
  \<open>MatchService.fetch_matches\<close>. The result is the returned value, the service
  afterwards and the number of calls made to the client.
\<close>

definition MatchService_fetch_matches ::
  "string option \<Rightarrow> int \<Rightarrow> http_outcome \<Rightarrow> match_service
     \<Rightarrow> py_exc + (pyval \<times> match_service \<times> nat)" where
  "MatchService_fetch_matches api_key now outcome svc =
     (if cache_fresh now svc then Inr (cache svc, svc, 0)
      else case FootballApiClient_fetch_matches api_key outcome of
        Inl e \<Rightarrow> Inl e
      | Inr matches \<Rightarrow>
          if truthy matches
          then Inr (matches, svc\<lparr>cache := matches, last_update := Some now\<rparr>, 1)
          else Inr (cache svc, svc, 1))"

text \<open>
  The body of the \<open>try\<close> in \<open>check_for_matches_with_target_odds\<close>: \<open>None\<close>
  when it raises (the handler logs and goes on), otherwise the value of the test.
\<close>

definition odds_in_range ::
  "builtins \<Rightarrow> pyfloat \<Rightarrow> pyfloat \<Rightarrow> pyval \<Rightarrow> bool option" where
  "odds_in_range B min_odds max_odds m =
     (case py_get m ''odds_1'' (PyInt 0) of
        None \<Rightarrow> None
      | Some v1 \<Rightarrow>
         (case py_float B v1 of
            None \<Rightarrow> None
          | Some odds_1 \<Rightarrow>
             (case py_get m ''odds_2'' (PyInt 0) of
                None \<Rightarrow> None
              | Some v2 \<Rightarrow>
                 (case py_float B v2 of
                    None \<Rightarrow> None
                  | Some odds_2 \<Rightarrow>
                      Some (fle min_odds odds_1 \<and> fle odds_1 max_odds
                            \<or> fle min_odds odds_2 \<and> fle odds_2 max_odds)))))"

text \<open>The loop over \<open>matches\<close> that builds \<open>result\<close>.\<close>

fun target_odds_loop ::
  "builtins \<Rightarrow> pyfloat \<Rightarrow> pyfloat \<Rightarrow> pyval list \<Rightarrow> pyval list" where
  "target_odds_loop B min_odds max_odds [] = []"
| "target_odds_loop B min_odds max_odds (m # ms) =
     (if odds_in_range B min_odds max_odds m = Some True
      then m # target_odds_loop B min_odds max_odds ms
      else target_odds_loop B min_odds max_odds ms)"

text \<open>The defaults \<open>min_odds=1.5, max_odds=5.0\<close>; no caller passes others.\<close>

definition default_min_odds :: pyfloat where
  "default_min_odds = Finite (3 / 2)"

definition default_max_odds :: pyfloat where
  "default_max_odds = Finite 5"

text \<open>
  \<open>check_for_matches_with_target_odds\<close>: fetch, then filter. Iterating a value
  that is not iterable raises outside the \<open>try\<close>.
\<close>

definition check_for_matches_with_target_odds ::
  "builtins \<Rightarrow> string option \<Rightarrow> int \<Rightarrow> http_outcome \<Rightarrow> match_service
     \<Rightarrow> pyfloat \<Rightarrow> pyfloat \<Rightarrow> py_exc + (pyval list \<times> match_service \<times> nat)" where
  "check_for_matches_with_target_odds B api_key now outcome svc min_odds max_odds =
     (case MatchService_fetch_matches api_key now outcome svc of
        Inl e \<Rightarrow> Inl e
      | Inr (matches, svc', n) \<Rightarrow>
         (case py_iter matches of
            None \<Rightarrow> Inl TypeError
          | Some ms \<Rightarrow> Inr (target_odds_loop B min_odds max_odds ms, svc', n)))"

text \<open>
  A history of calls to \<open>fetch_matches\<close>, each with its clock reading and with
  what the HTTP exchange would do if the call reached it. A call that raises leaves
  the service as it was.
\<close>

fun run_fetches ::
  "string option \<Rightarrow> match_service \<Rightarrow> (int \<times> http_outcome) list \<Rightarrow> match_service" where
  "run_fetches k svc [] = svc"
| "run_fetches k svc ((now, oc) # cs) =
     (case MatchService_fetch_matches k now oc svc of
        Inl e \<Rightarrow> run_fetches k svc cs
      | Inr (r, svc', n) \<Rightarrow> run_fetches k svc' cs)"

text \<open>
  A successful fetch, in the words of the specification: the call reached the client
  and the client returned a sequence that is not empty. \<open>fetched_payload\<close> is that
  sequence for one call (none when the call was served from the cache or the client
  came back empty), \<open>successful_fetches\<close> lists them along a history.
\<close>

definition fetched_payload :: "string option \<Rightarrow> http_outcome \<Rightarrow> nat \<Rightarrow> pyval list" where
  "fetched_payload k oc n =
     (if n = 0 then []
      else case FootballApiClient_fetch_matches k oc of
             Inl e \<Rightarrow> []
           | Inr p \<Rightarrow> if truthy p then [p] else [])"

fun successful_fetches ::
  "string option \<Rightarrow> match_service \<Rightarrow> (int \<times> http_outcome) list \<Rightarrow> pyval list" where
  "successful_fetches k svc [] = []"
| "successful_fetches k svc ((now, oc) # cs) =
     (case MatchService_fetch_matches k now oc svc of
        Inl e \<Rightarrow> successful_fetches k svc cs
      | Inr (r, svc', n) \<Rightarrow> fetched_payload k oc n @ successful_fetches k svc' cs)"

text \<open>
  The provider failures the specification lists: no API key, a network error or
  timeout (the request raises), a status other than 200, a body that cannot be
  decoded (\<open>resp.json()\<close> raises).
\<close>

definition provider_failure :: "string option \<Rightarrow> http_outcome \<Rightarrow> bool" where
  "provider_failure k oc =
     (key_missing k \<or>
      (case oc of
         RequestRaises e \<Rightarrow> is_Exception e
       | Response status body \<Rightarrow>
           status \<noteq> 200 \<or>
           (case body of JsonRaises e \<Rightarrow> is_Exception e | JsonValue d \<Rightarrow> False)))"

text \<open>
  An instance of the builtin parameters for inputs whose numbers are floats or small
  integers and whose texts are strings: none of the three functions is then called.
\<close>

definition numeric_builtins :: builtins where
  "numeric_builtins =
     \<lparr>str_to_float = (\<lambda>s. None), big_int_to_float = (\<lambda>n. None), repr_of = (\<lambda>v. [])\<rparr>"

subsection \<open>The target-odds rule as the specification words it\<close>

text \<open>Rounding to \<open>n\<close> decimal places.\<close>

definition round_to :: "nat \<Rightarrow> rat \<Rightarrow> rat" where
  "round_to n x = of_int (round (x * 10 ^ n)) / 10 ^ n"

text \<open>
  The rule of the specification on the four fields it reads: the rounded odds pair is
  (4.25, 1.225) or (4.22, 1.225), the kickoff is in the future and the match has not
  been notified.
\<close>

definition spec_target_match :: "int \<Rightarrow> rat \<Rightarrow> rat \<Rightarrow> int \<Rightarrow> bool \<Rightarrow> bool" where
  "spec_target_match now odds_1 odds_2 match_time notification_sent =
     ((round_to 2 odds_1 = 425 / 100 \<and> round_to 3 odds_2 = 1225 / 1000
       \<or> round_to 2 odds_1 = 422 / 100 \<and> round_to 3 odds_2 = 1225 / 1000)
      \<and> now < match_time \<and> \<not> notification_sent)"

text \<open>The same rule on a match record that carries the four fields.\<close>

fun spec_target_fields ::
  "int \<Rightarrow> pyval option \<Rightarrow> pyval option \<Rightarrow> pyval option \<Rightarrow> pyval option \<Rightarrow> bool" where
  "spec_target_fields now (Some (PyFloat (Finite a))) (Some (PyFloat (Finite b)))
       (Some (PyInt t)) (Some (PyBool sent)) = spec_target_match now a b t sent"
| "spec_target_fields now v1 v2 v3 v4 = False"

definition spec_target_record :: "int \<Rightarrow> pyval \<Rightarrow> bool" where
  "spec_target_record now m =
     (case m of
        PyDict kvs \<Rightarrow>
          spec_target_fields now (map_of kvs ''odds_1'') (map_of kvs ''odds_2'')
            (map_of kvs ''match_time'') (map_of kvs ''notification_sent'')
      | _ \<Rightarrow> False)"

section \<open>database\_service.py\<close>

subsection \<open>Tables\<close>

text \<open>
  The rows of the three tables the operations below touch. A table is the list of its
  rows in insertion order, the order in which the queries without \<open>ORDER BY\<close>
  read it. Datetimes are microseconds, as above.
\<close>

record user =
  u_id :: int
  telegram_id :: int
  username :: "string option"
  first_name :: string
  last_name :: "string option"
  registration_date :: int
  trial_messages_left :: int

record subscription =
  s_id :: int
  user_id :: int
  start_date :: int
  end_date :: int
  subscription_type :: string
  price_paid :: pyfloat
  payment_id :: string

record payment_link =
  pl_id :: int
  telegram_user_id :: int
  unique_id :: string
  link_subscription_type :: string
  amount :: pyfloat
  created_at :: int
  paid :: bool

record database =
  users :: "user list"
  subscriptions :: "subscription list"
  payment_links :: "payment_link list"

definition empty_database :: database where
  "empty_database = \<lparr>users = [], subscriptions = [], payment_links = []\<rparr>"

text \<open>The integer primary key given to a new row: one more than the largest.\<close>

definition next_id :: "int list \<Rightarrow> int" where
  "next_id ids = fold max ids 0 + 1"

text \<open>
  Writing back the object a query returned with \<open>.first()\<close>: the first row that
  satisfies the query's condition is replaced.
\<close>

fun update_first :: "('a \<Rightarrow> bool) \<Rightarrow> ('a \<Rightarrow> 'a) \<Rightarrow> 'a list \<Rightarrow> 'a list" where
  "update_first P f [] = []"
| "update_first P f (x # xs) = (if P x then f x # xs else x # update_first P f xs)"

text \<open>\<open>timedelta(weeks=1)\<close>, \<open>timedelta(days=n)\<close> and \<open>timedelta(minutes=1)\<close>.\<close>

definition days :: "int \<Rightarrow> int" where
  "days n = n * 86400000000"

definition one_minute :: int where
  "one_minute = 60000000"

subsection \<open>DatabaseService\<close>

text \<open>
  An integer bound to a statement has to fit the 64-bit INTEGER of SQLite; the driver
  raises OverflowError for one that does not, before the statement runs.
\<close>

definition sqlite_integer :: "int \<Rightarrow> bool" where
  "sqlite_integer n = (- (2 ^ 63) \<le> n \<and> n < 2 ^ 63)"

definition get_user_by_telegram_id :: "int \<Rightarrow> database \<Rightarrow> py_exc + user option" where
  "get_user_by_telegram_id tid d =
     (if sqlite_integer tid then Inr (find (\<lambda>u. telegram_id u = tid) (users d))
      else Inl OverflowError)"

definition get_or_create_user ::
  "int \<Rightarrow> string option \<Rightarrow> string \<Rightarrow> string option \<Rightarrow> int \<Rightarrow> database
     \<Rightarrow> py_exc + (user \<times> database)" where
  "get_or_create_user tid uname fname lname now d =
     (case get_user_by_telegram_id tid d of
        Inl e \<Rightarrow> Inl e
      | Inr (Some u) \<Rightarrow> Inr (u, d)
      | Inr None \<Rightarrow>
          (let u = \<lparr>u_id = next_id (map u_id (users d)), telegram_id = tid,
                     username = uname, first_name = fname, last_name = lname,
                     registration_date = now, trial_messages_left = 3\<rparr>
           in Inr (u, d\<lparr>users := users d @ [u]\<rparr>)))"

definition has_active_subscription :: "int \<Rightarrow> int \<Rightarrow> database \<Rightarrow> bool" where
  "has_active_subscription uid now d =
     (find (\<lambda>s. user_id s = uid \<and> now \<le> end_date s) (subscriptions d) \<noteq> None)"

definition decrement_trial_message :: "int \<Rightarrow> database \<Rightarrow> int \<times> database" where
  "decrement_trial_message uid d =
     (case find (\<lambda>u. u_id u = uid) (users d) of
        None \<Rightarrow> (0, d)
      | Some u \<Rightarrow>
          if 0 < trial_messages_left u
          then (trial_messages_left u - 1,
                d\<lparr>users := update_first (\<lambda>v. u_id v = uid)
                     (\<lambda>v. v\<lparr>trial_messages_left := trial_messages_left v - 1\<rparr>)
                     (users d)\<rparr>)
          else (0, d))"

text \<open>
  \<open>create_payment_link\<close>; the first argument is the token that
  \<open>uuid.uuid4().hex[:10]\<close> draws. The column is unique: a token already in the
  table makes the commit raise.
\<close>

definition create_payment_link ::
  "string \<Rightarrow> int \<Rightarrow> string \<Rightarrow> pyfloat \<Rightarrow> int \<Rightarrow> database
     \<Rightarrow> py_exc + (payment_link \<times> database)" where
  "create_payment_link token tuid stype amt now d =
     (if find (\<lambda>p. unique_id p = token) (payment_links d) \<noteq> None
      then Inl IntegrityError
      else (let p = \<lparr>pl_id = next_id (map pl_id (payment_links d)),
                       telegram_user_id = tuid, unique_id = token,
                       link_subscription_type = stype, amount = amt,
                       created_at = now, paid = False\<rparr>
            in Inr (p, d\<lparr>payment_links := payment_links d @ [p]\<rparr>)))"

definition get_payment_link :: "string \<Rightarrow> database \<Rightarrow> payment_link option" where
  "get_payment_link uid d = find (\<lambda>p. unique_id p = uid) (payment_links d)"

definition mark_payment_as_paid ::
  "string \<Rightarrow> database \<Rightarrow> payment_link option \<times> database" where
  "mark_payment_as_paid uid d =
     (case find (\<lambda>p. unique_id p = uid) (payment_links d) of
        None \<Rightarrow> (None, d)
      | Some p \<Rightarrow>
          if \<not> paid p
          then (Some (p\<lparr>paid := True\<rparr>),
                d\<lparr>payment_links := update_first (\<lambda>q. unique_id q = uid)
                     (\<lambda>q. q\<lparr>paid := True\<rparr>) (payment_links d)\<rparr>)
          else (None, d))"

definition subscription_end :: "string \<Rightarrow> int \<Rightarrow> int" where
  "subscription_end stype now =
     (if stype = ''week'' then now + days 7
      else if stype = ''two_weeks'' then now + days 14
      else if stype = ''month'' then now + days 31
      else now + days 7)"

definition create_subscription ::
  "int \<Rightarrow> string \<Rightarrow> pyfloat \<Rightarrow> string \<Rightarrow> int \<Rightarrow> database
     \<Rightarrow> subscription \<times> database" where
  "create_subscription uid stype amt pid now d =
     (let s = \<lparr>s_id = next_id (map s_id (subscriptions d)), user_id = uid,
                start_date = now, end_date = subscription_end stype now,
                subscription_type = stype, price_paid = amt, payment_id = pid\<rparr>
      in (s, d\<lparr>subscriptions := subscriptions d @ [s]\<rparr>))"

text \<open>
  \<open>revoke_subscription\<close> is declared \<open>@staticmethod\<close> with the one parameter
  \<open>username\<close>, and its first statement is \<open>async with self.async_session()\<close>.
  No \<open>self\<close> is bound in the function or in the module, so looking the name up
  raises NameError before any query runs. \<open>revoke_subscription_body\<close> is what the
  statements under the \<open>async with\<close> do on a session.
\<close>

definition unbound_self :: "py_exc + unit" where
  "unbound_self = Inl NameError"

definition revoke_subscription_body ::
  "string \<Rightarrow> int \<Rightarrow> database \<Rightarrow> int option \<times> database" where
  "revoke_subscription_body uname now d =
     (case find (\<lambda>u. username u = Some uname) (users d) of
        None \<Rightarrow> (None, d)
      | Some u \<Rightarrow>
         (case find (\<lambda>s. user_id s = u_id u \<and> now \<le> end_date s) (subscriptions d) of
            None \<Rightarrow> (None, d)
          | Some s \<Rightarrow>
              (Some (telegram_id u),
               d\<lparr>subscriptions :=
                    update_first (\<lambda>s. user_id s = u_id u \<and> now \<le> end_date s)
                      (\<lambda>s. s\<lparr>end_date := now - one_minute\<rparr>) (subscriptions d)\<rparr>)))"

definition revoke_subscription ::
  "string \<Rightarrow> int \<Rightarrow> database \<Rightarrow> py_exc + (int option \<times> database)" where
  "revoke_subscription uname now d =
     (case unbound_self of
        Inl e \<Rightarrow> Inl e
      | Inr session \<Rightarrow> Inr (revoke_subscription_body uname now d))"

text \<open>
  The operations of the service that can write, as a caller issues them one after
  the other. One that raises leaves the tables as they were.
\<close>

datatype db_op =
    GetOrCreateUser int "string option" string "string option" int
  | DecrementTrialMessage int
  | CreatePaymentLink string int string pyfloat int
  | MarkPaymentAsPaid string
  | CreateSubscription int string pyfloat string int
  | RevokeSubscription string int

fun apply_db_op :: "db_op \<Rightarrow> database \<Rightarrow> database" where
  "apply_db_op (GetOrCreateUser tid uname fname lname now) d =
     (case get_or_create_user tid uname fname lname now d of
        Inl e \<Rightarrow> d
      | Inr (u, d') \<Rightarrow> d')"
| "apply_db_op (DecrementTrialMessage uid) d = snd (decrement_trial_message uid d)"
| "apply_db_op (CreatePaymentLink token tuid stype amt now) d =
     (case create_payment_link token tuid stype amt now d of
        Inl e \<Rightarrow> d
      | Inr (p, d') \<Rightarrow> d')"
| "apply_db_op (MarkPaymentAsPaid uid) d = snd (mark_payment_as_paid uid d)"
| "apply_db_op (CreateSubscription uid stype amt pid now) d =
     snd (create_subscription uid stype amt pid now d)"
| "apply_db_op (RevokeSubscription uname now) d =
     (case revoke_subscription uname now d of
        Inl e \<Rightarrow> d
      | Inr (r, d') \<Rightarrow> d')"

fun run_db_ops :: "db_op list \<Rightarrow> database \<Rightarrow> database" where
  "run_db_ops [] d = d"
| "run_db_ops (op # ops) d = run_db_ops ops (apply_db_op op d)"


text \<open>
  The lifecycle scenario: a user is created, uses the three trial messages, and then
  gets a subscription of type week.
\<close>

definition lifecycle_created :: database where
  "lifecycle_created =
     (case get_or_create_user 42 (Some ''alice'') ''Alice'' None 0 empty_database of
        Inl e \<Rightarrow> empty_database
      | Inr (u, d) \<Rightarrow> d)"

definition lifecycle_trial_spent :: database where
  "lifecycle_trial_spent =
     run_db_ops [DecrementTrialMessage 1, DecrementTrialMessage 1, DecrementTrialMessage 1]
       lifecycle_created"

definition lifecycle_subscribed :: database where
  "lifecycle_subscribed =
     snd (create_subscription 1 ''week'' (Finite 650) ''abc123'' 1000 lifecycle_trial_spent)"

text \<open>A database with one user and one pending payment link.\<close>

definition pending_link_db :: database where
  "pending_link_db =
     (case create_payment_link ''abc123'' 42 ''week'' (Finite 650) 500 lifecycle_created of
        Inl e \<Rightarrow> lifecycle_created
      | Inr (p, d) \<Rightarrow> d)"

section \<open>payment\_service.py\<close>

subsection \<open>DonationAlertsClient\<close>

text \<open>\<open>a in b\<close> on two strings: \<open>a\<close> occurs in \<open>b\<close> as a contiguous piece.\<close>

fun py_in_str :: "string \<Rightarrow> string \<Rightarrow> bool" where
  "py_in_str a [] = (a = [])"
| "py_in_str a (c # cs) = (take (length a) (c # cs) = a \<or> py_in_str a cs)"

text \<open>
  \<open>key in data\<close> for a string \<open>key\<close>: a key of a dict, an element of a list, a
  piece of a string; any other \<open>data\<close> raises TypeError (\<open>None\<close>).
\<close>

fun py_contains :: "string \<Rightarrow> pyval \<Rightarrow> bool option" where
  "py_contains k (PyDict kvs) = Some (map_of kvs k \<noteq> None)"
| "py_contains k (PyList xs) = Some (PyStr k \<in> set xs)"
| "py_contains k (PyStr s) = Some (py_in_str k s)"
| "py_contains k v = None"

text \<open>
  \<open>data[key]\<close> for a string \<open>key\<close>: the value of a dict (KeyError when absent),
  TypeError on a list or a string, which take integer indices, and on the rest.
\<close>

fun py_getitem :: "pyval \<Rightarrow> string \<Rightarrow> pyval option" where
  "py_getitem (PyDict kvs) k = map_of kvs k"
| "py_getitem v k = None"

text \<open>
  The loop \<open>for key in ("data", "donations", "results")\<close>: it raises, returns the
  value under the first key present, or ends without returning.
\<close>

fun known_key_loop :: "string list \<Rightarrow> pyval \<Rightarrow> py_exc + pyval option" where
  "known_key_loop [] data = Inr None"
| "known_key_loop (key # keys) data =
     (case py_contains key data of
        None \<Rightarrow> Inl TypeError
      | Some True \<Rightarrow>
          (case py_getitem data key of
             None \<Rightarrow> Inl TypeError
           | Some v \<Rightarrow> Inr (Some v))
      | Some False \<Rightarrow> known_key_loop keys data)"

text \<open>\<open>list(data.values())[0] if data else []\<close>.\<close>

definition first_value_or_empty :: "pyval \<Rightarrow> py_exc + pyval" where
  "first_value_or_empty data =
     (if truthy data
      then (case data of
              PyDict kvs \<Rightarrow> (case kvs of [] \<Rightarrow> Inl IndexError | kv # rest \<Rightarrow> Inr (snd kv))
            | _ \<Rightarrow> Inl AttributeError)
      else Inr (PyList []))"

definition extract_donations :: "pyval \<Rightarrow> py_exc + pyval" where
  "extract_donations data =
     (case known_key_loop [''data'', ''donations'', ''results''] data of
        Inl e \<Rightarrow> Inl e
      | Inr (Some v) \<Rightarrow> Inr v
      | Inr None \<Rightarrow> first_value_or_empty data)"

definition get_recent_donations :: "string option \<Rightarrow> http_outcome \<Rightarrow> py_exc + pyval" where
  "get_recent_donations api_key outcome =
     (if key_missing api_key then Inr (PyList [])
      else case outcome of
        RequestRaises e \<Rightarrow> except_Exception e
      | Response status body \<Rightarrow>
          if status \<noteq> 200 then Inr (PyList [])
          else (case body of
                  JsonRaises e \<Rightarrow> except_Exception e
                | JsonValue data \<Rightarrow>
                    (case extract_donations data of
                       Inl e \<Rightarrow> except_Exception e
                     | Inr v \<Rightarrow> Inr v)))"

subsection \<open>PaymentService\<close>

text \<open>
  The test inside the \<open>try\<close> of \<open>check_payment\<close>; \<open>None\<close> when it raises
  (the handler logs and the loop goes on). \<open>and\<close> does not evaluate the amount
  when the message does not hold the token. The link's \<open>unique_id\<close> is a string
  and its \<open>amount\<close> a float already, so \<open>str\<close> and \<open>float\<close> leave them as
  they are.
\<close>

definition donation_matches :: "builtins \<Rightarrow> payment_link \<Rightarrow> pyval \<Rightarrow> bool option" where
  "donation_matches B link donation =
     (case py_get donation ''message'' (PyStr []) of
        None \<Rightarrow> None
      | Some msg \<Rightarrow>
          if \<not> py_in_str (unique_id link) (py_str B msg) then Some False
          else (case py_get donation ''amount'' (PyInt 0) of
                  None \<Rightarrow> None
                | Some a \<Rightarrow>
                    (case py_float B a of
                       None \<Rightarrow> None
                     | Some x \<Rightarrow> Some (fge x (amount link)))))"

text \<open>The loop that sets \<open>found\<close> and breaks at the first donation that passes.\<close>

fun find_donation :: "builtins \<Rightarrow> payment_link \<Rightarrow> pyval list \<Rightarrow> pyval option" where
  "find_donation B link [] = None"
| "find_donation B link (donation # rest) =
     (if donation_matches B link donation = Some True then Some donation
      else find_donation B link rest)"

text \<open>The dictionaries \<open>check_payment\<close> returns.\<close>

datatype failure =
    PaymentLinkNotFound
  | PaymentAlreadyProcessed
  | PaymentNotFound
  | FailedToProcessPayment
  | UserNotFound

datatype check_result = Failure failure | Success int string int

text \<open>\<open>if not found\<close>: nothing was found, or the donation found is an empty dict.\<close>

definition not_found :: "pyval option \<Rightarrow> bool" where
  "not_found found = (case found of None \<Rightarrow> True | Some donation \<Rightarrow> \<not> truthy donation)"

text \<open>
  \<open>check_payment\<close>. Iterating donations that are not iterable raises outside the
  \<open>try\<close>. Once a donation is found the next statement is
  \<open>DatabaseService.mark_payment_as_paid(unique_id)\<close>: the method is taken from the
  class, not from \<open>self.db_service\<close>, so \<open>unique_id\<close> is bound to \<open>self\<close>
  and the call raises TypeError for the missing argument; the statements after it
  are not reached. The tables are returned with the result.
\<close>

definition check_payment ::
  "builtins \<Rightarrow> string option \<Rightarrow> http_outcome \<Rightarrow> string \<Rightarrow> database
     \<Rightarrow> py_exc + (check_result \<times> database)" where
  "check_payment B api_key outcome uid d =
     (case get_payment_link uid d of
        None \<Rightarrow> Inr (Failure PaymentLinkNotFound, d)
      | Some link \<Rightarrow>
          if paid link then Inr (Failure PaymentAlreadyProcessed, d)
          else (case get_recent_donations api_key outcome of
                  Inl e \<Rightarrow> Inl e
                | Inr donations \<Rightarrow>
                   (case py_iter donations of
                      None \<Rightarrow> Inl TypeError
                    | Some ds \<Rightarrow>
                        if not_found (find_donation B link ds)
                        then Inr (Failure PaymentNotFound, d)
                        else Inl TypeError)))"

section \<open>Properties of the match cache and of the filter\<close>

subsection \<open>The filter\<close>

lemma target_odds_loop_filter:
  "target_odds_loop B lo hi ms = filter (\<lambda>m. odds_in_range B lo hi m = Some True) ms"
  by (induction ms) auto

lemma odds_in_range_Some_True:
  "(odds_in_range B lo hi m = Some True) =
     (\<exists>v1 v2 o1 o2.
        py_get m ''odds_1'' (PyInt 0) = Some v1 \<and> py_float B v1 = Some o1 \<and>
        py_get m ''odds_2'' (PyInt 0) = Some v2 \<and> py_float B v2 = Some o2 \<and>
        (fle lo o1 \<and> fle o1 hi \<or> fle lo o2 \<and> fle o2 hi))"
  by (auto simp: odds_in_range_def split: option.splits)

text \<open>
  Claim C1 on the code: the filter of \<open>check_for_matches_with_target_odds\<close> does
  not return exactly the matches of the target rule. A match with odds 2.0 and 10.0,
  a kickoff in the future and no notification yet has neither target pair, and the
  loop, run with the defaults as every caller runs it, returns it.
\<close>

theorem target_odds_counterexample:
  "target_odds_loop numeric_builtins default_min_odds default_max_odds
     [PyDict [(''odds_1'', PyFloat (Finite 2)), (''odds_2'', PyFloat (Finite 10)),
              (''match_time'', PyInt 1000000), (''notification_sent'', PyBool False)]]
   \<noteq> filter (spec_target_record 0)
     [PyDict [(''odds_1'', PyFloat (Finite 2)), (''odds_2'', PyFloat (Finite 10)),
              (''match_time'', PyInt 1000000), (''notification_sent'', PyBool False)]]"
  by (simp add: odds_in_range_def default_min_odds_def default_max_odds_def
        spec_target_record_def spec_target_match_def round_to_def)

text \<open>
  Nor are the kickoff and the notified flag read: a match at the target pair that
  was notified and has been played is returned as well.
\<close>

lemma notified_match_still_returned:
  "target_odds_loop numeric_builtins default_min_odds default_max_odds
     [PyDict [(''odds_1'', PyFloat (Finite (425 / 100))),
              (''odds_2'', PyFloat (Finite (1225 / 1000))),
              (''match_time'', PyInt (- 5)), (''notification_sent'', PyBool True)]]
   = [PyDict [(''odds_1'', PyFloat (Finite (425 / 100))),
              (''odds_2'', PyFloat (Finite (1225 / 1000))),
              (''match_time'', PyInt (- 5)), (''notification_sent'', PyBool True)]]"
  by (simp add: odds_in_range_def default_min_odds_def default_max_odds_def)

text \<open>
  What the loop computes instead: it returns, in their order, the records that are
  dicts whose \<open>odds_1\<close> and \<open>odds_2\<close> (0 when the key is absent) both convert
  to a float and of which one lies between \<open>min_odds\<close> and \<open>max_odds\<close>, bounds
  included; no other field is read.
\<close>

lemma target_odds_range:
  "target_odds_loop B min_odds max_odds ms =
     filter (\<lambda>m. \<exists>v1 v2 o1 o2.
        py_get m ''odds_1'' (PyInt 0) = Some v1 \<and> py_float B v1 = Some o1 \<and>
        py_get m ''odds_2'' (PyInt 0) = Some v2 \<and> py_float B v2 = Some o2 \<and>
        (fle min_odds o1 \<and> fle o1 max_odds \<or> fle min_odds o2 \<and> fle o2 max_odds)) ms"
  by (simp only: target_odds_loop_filter odds_in_range_Some_True)

lemma target_odds_range_example:
  "target_odds_loop numeric_builtins default_min_odds default_max_odds
     [PyDict [(''odds_1'', PyFloat (Finite 2)), (''odds_2'', PyFloat (Finite 10))],
      PyDict [(''odds_1'', PyFloat (Finite 7)), (''odds_2'', PyFloat (Finite 1))],
      PyStr ''x'']
   = [PyDict [(''odds_1'', PyFloat (Finite 2)), (''odds_2'', PyFloat (Finite 10))]]"
  using target_odds_range [of numeric_builtins default_min_odds default_max_odds
     "[PyDict [(''odds_1'', PyFloat (Finite 2)), (''odds_2'', PyFloat (Finite 10))],
      PyDict [(''odds_1'', PyFloat (Finite 7)), (''odds_2'', PyFloat (Finite 1))],
      PyStr ''x'']"]
  by (simp add: default_min_odds_def default_max_odds_def)

text \<open>
  Claim C8: the filter is a function of its input sequence (and of the two bounds);
  applying it to its own output changes nothing, and the output is a subsequence of
  the input, in the input's order.
\<close>

theorem target_odds_pure:
  "target_odds_loop B min_odds max_odds (target_odds_loop B min_odds max_odds ms)
     = target_odds_loop B min_odds max_odds ms
   \<and> subseq (target_odds_loop B min_odds max_odds ms) ms"
  by (simp add: target_odds_loop_filter)

subsection \<open>The cache\<close>

text \<open>The elapsed times of the examples below, as doubles.\<close>

lemma total_seconds_5s: "total_seconds 5000000 = 5"
  by (simp add: total_seconds_def to_double_def binary_exponent_def pow2_def
        round_half_even_def Let_def compute_bitlen)

lemma total_seconds_700s: "total_seconds 700000000 = 700"
  by (simp add: total_seconds_def to_double_def binary_exponent_def pow2_def
        round_half_even_def Let_def compute_bitlen)

lemma floor_544_years: "\<lfloor>17179869184999999 / 1000000 :: rat\<rfloor> = 17179869184"
  by (rule floor_unique) simp_all

lemma bitlen_544_years: "bitlen 17179869184 = 35"
  by (simp add: compute_bitlen)

lemma floor_544_years_scaled:
  "\<lfloor>70368744181759995904 / 15625 :: rat\<rfloor> = 4503599627632639"
  by (rule floor_unique) simp_all

lemma total_seconds_544_years: "total_seconds 17179869184999999 = 17179869185"
  by (simp add: total_seconds_def to_double_def binary_exponent_def pow2_def
        round_half_even_def Let_def floor_544_years bitlen_544_years
        floor_544_years_scaled)

lemma fetch_step_cache:
  "MatchService_fetch_matches k now oc svc = Inr (r, svc', n) \<Longrightarrow>
     cache svc' = last (cache svc # fetched_payload k oc n)"
  by (auto simp: MatchService_fetch_matches_def fetched_payload_def
           split: if_splits sum.splits)

lemma run_fetches_cache:
  "cache (run_fetches k svc cs) = last (cache svc # successful_fetches k svc cs)"
proof (induction cs arbitrary: svc)
  case Nil
  show ?case by simp
next
  case (Cons c cs)
  obtain now oc where c: "c = (now, oc)" by (cases c)
  show ?case
  proof (cases "MatchService_fetch_matches k now oc svc")
    case (Inl e)
    with Cons c show ?thesis by simp
  next
    case (Inr t)
    obtain r svc' n where t: "t = (r, svc', n)" by (cases t)
    from Inr t have "cache svc' = last (cache svc # fetched_payload k oc n)"
      by (simp add: fetch_step_cache)
    with Cons [of svc'] Inr t c show ?thesis
      by (simp add: last_append)
  qed
qed

lemma empty_fetch_keeps:
  assumes "FootballApiClient_fetch_matches k oc = Inr p" and "\<not> truthy p"
  shows "\<exists>n. MatchService_fetch_matches k now oc svc = Inr (cache svc, svc, n)"
  using assms by (simp add: MatchService_fetch_matches_def)

lemma provider_failure_empty:
  "provider_failure k oc \<Longrightarrow> FootballApiClient_fetch_matches k oc = Inr (PyList [])"
  by (auto simp: provider_failure_def FootballApiClient_fetch_matches_def
        except_Exception_def split: http_outcome.splits body_outcome.splits)

text \<open>
  Claim C2: after any history of calls, a call for which the client comes back empty
  returns the stored sequence and leaves the service, stored sequence and
  \<open>last_update\<close> included, as it was; and the stored sequence is that of the most
  recent successful fetch of the history, or the empty list when there was none.
\<close>

theorem stale_on_empty:
  assumes "FootballApiClient_fetch_matches k oc = Inr p" and "\<not> truthy p"
  shows "(\<exists>n. MatchService_fetch_matches k now oc (run_fetches k (init_service ttl) cs)
            = Inr (cache (run_fetches k (init_service ttl) cs),
                   run_fetches k (init_service ttl) cs, n))
         \<and> cache (run_fetches k (init_service ttl) cs)
            = last (PyList [] # successful_fetches k (init_service ttl) cs)"
proof
  show "\<exists>n. MatchService_fetch_matches k now oc (run_fetches k (init_service ttl) cs)
            = Inr (cache (run_fetches k (init_service ttl) cs),
                   run_fetches k (init_service ttl) cs, n)"
    by (rule empty_fetch_keeps [OF assms])
next
  have "cache (init_service ttl) = PyList []"
    by (simp add: init_service_def)
  with run_fetches_cache [of k "init_service ttl" cs]
  show "cache (run_fetches k (init_service ttl) cs)
            = last (PyList [] # successful_fetches k (init_service ttl) cs)"
    by (simp only:)
qed

theorem stale_on_empty_witness:
  "FootballApiClient_fetch_matches (Some ''key'') (RequestRaises TimeoutError)
     = Inr (PyList [])
   \<and> \<not> truthy (PyList [])
   \<and> MatchService_fetch_matches (Some ''key'') 700000000 (RequestRaises TimeoutError)
       (run_fetches (Some ''key'') (init_service 600)
          [(0, Response 200 (JsonValue (PyList [PyInt 1])))])
     = Inr (PyList [PyInt 1],
            \<lparr>cache = PyList [PyInt 1], last_update = Some 0, cache_ttl = 600\<rparr>, 1)
   \<and> successful_fetches (Some ''key'') (init_service 600)
        [(0, Response 200 (JsonValue (PyList [PyInt 1])))] = [PyList [PyInt 1]]"
  using stale_on_empty [of "Some ''key''" "RequestRaises TimeoutError" "PyList []"
      700000000 600 "[(0, Response 200 (JsonValue (PyList [PyInt 1])))]"]
  by (simp add: MatchService_fetch_matches_def FootballApiClient_fetch_matches_def
        cache_fresh_def total_seconds_700s init_service_def key_missing_def
        except_Exception_def is_Exception_def fetched_payload_def)

text \<open>
  Claim C3, as the specification states it, fails where the double cannot tell the
  elapsed time from the time-to-live: with a time-to-live of 2^34 + 1 seconds and a
  call one microsecond short of it after the last success, the elapsed time is less
  than the time-to-live, \<open>total_seconds()\<close> rounds it up to the time-to-live, the
  test \<open><\<close> fails, and the call goes to the client and replaces the stored
  sequence.
\<close>

theorem ttl_exact_counterexample:
  "rat_of_int (17179869184999999 - 0) / 1000000 < rat_of_int 17179869185
   \<and> MatchService_fetch_matches (Some ''key'') 17179869184999999
        (Response 200 (JsonValue (PyList [PyInt 2])))
        \<lparr>cache = PyList [PyInt 1], last_update = Some 0, cache_ttl = 17179869185\<rparr>
      = Inr (PyList [PyInt 2],
             \<lparr>cache = PyList [PyInt 2], last_update = Some 17179869184999999,
                cache_ttl = 17179869185\<rparr>, 1)"
  by (simp add: MatchService_fetch_matches_def FootballApiClient_fetch_matches_def
        cache_fresh_def key_missing_def total_seconds_544_years)

text \<open>
  Claim C3, amended: when a successful fetch was recorded and the elapsed time in
  seconds, as the double that \<open>total_seconds()\<close> returns, is less than the
  time-to-live, \<open>fetch_matches\<close> makes no call to the client, leaves the stored
  sequence and \<open>last_update\<close> as they were and returns the stored sequence.
\<close>

theorem ttl_hit:
  assumes "last_update svc = Some lu"
    and "total_seconds (now - lu) < of_int (cache_ttl svc)"
  shows "MatchService_fetch_matches k now oc svc = Inr (cache svc, svc, 0)"
  using assms by (simp add: MatchService_fetch_matches_def cache_fresh_def)

theorem ttl_hit_witness:
  "total_seconds (5000000 - 0) < of_int 600
   \<and> MatchService_fetch_matches (Some ''key'') 5000000
        (Response 200 (JsonValue (PyList [PyInt 2])))
        \<lparr>cache = PyList [PyInt 1], last_update = Some 0, cache_ttl = 600\<rparr>
      = Inr (PyList [PyInt 1],
             \<lparr>cache = PyList [PyInt 1], last_update = Some 0, cache_ttl = 600\<rparr>, 0)"
  using ttl_hit [of "\<lparr>cache = PyList [PyInt 1], last_update = Some 0, cache_ttl = 600\<rparr>"
      0 5000000 "Some ''key''" "Response 200 (JsonValue (PyList [PyInt 2]))"]
  by (simp add: total_seconds_5s)

text \<open>
  Claim C6: on every provider failure (no API key, a request that raises, a status
  other than 200, a body that cannot be decoded) the client returns the empty list
  and raises nothing, and so \<open>MatchService.fetch_matches\<close> returns, with the stored
  sequence, and raises nothing.
\<close>

theorem provider_failure_absorbed:
  assumes "provider_failure k oc"
  shows "FootballApiClient_fetch_matches k oc = Inr (PyList []) \<and>
         (\<exists>n. MatchService_fetch_matches k now oc svc = Inr (cache svc, svc, n))"
  using provider_failure_empty [OF assms]
    empty_fetch_keeps [of k oc "PyList []" now svc] by simp

theorem provider_failure_absorbed_witness:
  "provider_failure (Some ''key'') (Response 503 (JsonRaises ContentTypeError))
   \<and> FootballApiClient_fetch_matches (Some ''key'')
        (Response 503 (JsonRaises ContentTypeError)) = Inr (PyList [])
   \<and> MatchService_fetch_matches (Some ''key'') 0
        (Response 503 (JsonRaises ContentTypeError)) (init_service 600)
      = Inr (PyList [], init_service 600, 1)"
  using provider_failure_absorbed [of "Some ''key''"
      "Response 503 (JsonRaises ContentTypeError)" 0 "init_service 600"]
  by (simp add: provider_failure_def key_missing_def MatchService_fetch_matches_def
        FootballApiClient_fetch_matches_def cache_fresh_def init_service_def)

section \<open>Properties of the payment check\<close>

lemma take_length_prefix: "(take (length a) b = a) = prefix a b"
proof
  assume "take (length a) b = a"
  then show "prefix a b" by (metis take_is_prefix)
next
  assume "prefix a b"
  then show "take (length a) b = a" by (auto simp: prefix_def)
qed

lemma py_in_str_sublist: "py_in_str a b = sublist a b"
  by (induction b) (simp_all add: sublist_Cons_right take_length_prefix del: take_Suc_Cons)

lemma donation_matches_Some_True:
  "(donation_matches B link d = Some True) =
     (\<exists>msg a x. py_get d ''message'' (PyStr []) = Some msg \<and>
        sublist (unique_id link) (py_str B msg) \<and>
        py_get d ''amount'' (PyInt 0) = Some a \<and> py_float B a = Some x \<and>
        fge x (amount link))"
  by (auto simp: donation_matches_def py_in_str_sublist split: option.splits)

lemma find_donation_None:
  "(find_donation B link ds = None) =
     (\<forall>d\<in>set ds. donation_matches B link d \<noteq> Some True)"
  by (induction ds) auto

text \<open>
  The loop of \<open>check_payment\<close> finds a donation for a pending link if and only if
  one of the donations returned is a record whose message (as a string, empty when
  absent) holds the link's \<open>unique_id\<close> as a contiguous piece and whose amount (as
  a float, 0 when absent) is at least the link's amount.
\<close>

lemma donation_match_iff:
  "(find_donation B link ds \<noteq> None) =
     (\<exists>d\<in>set ds. \<exists>msg a x.
        py_get d ''message'' (PyStr []) = Some msg \<and>
        sublist (unique_id link) (py_str B msg) \<and>
        py_get d ''amount'' (PyInt 0) = Some a \<and> py_float B a = Some x \<and>
        fge x (amount link))"
proof -
  have "(find_donation B link ds \<noteq> None) =
          (\<exists>d\<in>set ds. donation_matches B link d = Some True)"
    by (simp add: find_donation_None)
  then show ?thesis
    by (simp only: donation_matches_Some_True)
qed

text \<open>
  The loop on the example of the specification: the link \<open>abc123\<close> of amount 650
  is matched by a donation of 650 whose message holds the token, and not by one of
  649.99 (the double nearest to 649.99, written as the fraction it is).
\<close>

lemma donation_match_iff_example:
  "find_donation numeric_builtins
       \<lparr>pl_id = 1, telegram_user_id = 7, unique_id = ''abc123'',
          link_subscription_type = ''week'', amount = Finite 650, created_at = 0,
          paid = False\<rparr>
       [PyDict [(''message'', PyStr ''sub abc123''),
                (''amount'', PyFloat (Finite (2858686251752489 / 4398046511104)))],
        PyDict [(''message'', PyStr ''sub abc123''), (''amount'', PyInt 650)]]
     \<noteq> None
   \<and> find_donation numeric_builtins
       \<lparr>pl_id = 1, telegram_user_id = 7, unique_id = ''abc123'',
          link_subscription_type = ''week'', amount = Finite 650, created_at = 0,
          paid = False\<rparr>
       [PyDict [(''message'', PyStr ''sub abc123''),
                (''amount'', PyFloat (Finite (2858686251752489 / 4398046511104)))]]
     = None"
  using donation_match_iff [of numeric_builtins
       "\<lparr>pl_id = 1, telegram_user_id = 7, unique_id = ''abc123'',
          link_subscription_type = ''week'', amount = Finite 650, created_at = 0,
          paid = False\<rparr>"
       "[PyDict [(''message'', PyStr ''sub abc123''),
                (''amount'', PyFloat (Finite (2858686251752489 / 4398046511104)))],
        PyDict [(''message'', PyStr ''sub abc123''), (''amount'', PyInt 650)]]"]
  by (simp add: donation_matches_def fge_def)

text \<open>
  What \<open>check_payment\<close> makes of the loop's result for a pending link: the
  not-found answer, or the TypeError of the call that follows a match. It returns
  no success on any input.
\<close>

lemma check_payment_never_succeeds:
  "check_payment B k oc uid d \<noteq> Inr (Success tid stype end_time, d')"
  by (auto simp: check_payment_def split: option.splits sum.splits)

lemma check_payment_pending:
  assumes "get_payment_link uid d = Some link" and "\<not> paid link"
    and "get_recent_donations k oc = Inr donations" and "py_iter donations = Some ds"
  shows "check_payment B k oc uid d =
           (if not_found (find_donation B link ds) then Inr (Failure PaymentNotFound, d)
            else Inl TypeError)"
  using assms by (simp add: check_payment_def)

text \<open>
  Claim C7: on a response of status 200 whose body is a JSON object,
  \<open>get_recent_donations\<close> returns the value under the first of \<open>data\<close>,
  \<open>donations\<close>, \<open>results\<close> that is a key of the object, and without any of them
  the first value of the object, or the empty list when the object is empty; with no
  API key, on another status and when the request raises it returns the empty list.
\<close>

theorem donations_extracted:
  "(\<not> key_missing k \<longrightarrow>
      get_recent_donations k (Response 200 (JsonValue (PyDict kvs))) =
        Inr (case map_of kvs ''data'' of
               Some v \<Rightarrow> v
             | None \<Rightarrow>
                (case map_of kvs ''donations'' of
                   Some v \<Rightarrow> v
                 | None \<Rightarrow>
                    (case map_of kvs ''results'' of
                       Some v \<Rightarrow> v
                     | None \<Rightarrow> (case kvs of [] \<Rightarrow> PyList [] | kv # rest \<Rightarrow> snd kv)))))
   \<and> (key_missing k \<longrightarrow> get_recent_donations k oc = Inr (PyList []))
   \<and> (status \<noteq> 200 \<longrightarrow> get_recent_donations k (Response status body) = Inr (PyList []))
   \<and> (is_Exception e \<longrightarrow> get_recent_donations k (RequestRaises e) = Inr (PyList []))"
  by (auto simp: get_recent_donations_def extract_donations_def first_value_or_empty_def
        except_Exception_def split: option.splits list.splits)

theorem donations_extracted_witness:
  "\<not> key_missing (Some ''tok'')
   \<and> get_recent_donations (Some ''tok'')
        (Response 200 (JsonValue (PyDict [(''meta'', PyInt 1), (''results'', PyList [PyInt 5]),
                                          (''donations'', PyList [PyInt 6])])))
      = Inr (PyList [PyInt 6])
   \<and> get_recent_donations (Some ''tok'')
        (Response 200 (JsonValue (PyDict [(''meta'', PyInt 1), (''page'', PyInt 2)])))
      = Inr (PyInt 1)
   \<and> key_missing None
   \<and> get_recent_donations None (RequestRaises TimeoutError) = Inr (PyList [])
   \<and> (404::int) \<noteq> 200
   \<and> get_recent_donations (Some ''tok'') (Response 404 (JsonValue PyNone)) = Inr (PyList [])
   \<and> is_Exception TimeoutError
   \<and> get_recent_donations (Some ''tok'') (RequestRaises TimeoutError) = Inr (PyList [])"
  using donations_extracted [of "Some ''tok''"
      "[(''meta'', PyInt 1), (''results'', PyList [PyInt 5]), (''donations'', PyList [PyInt 6])]"
      "RequestRaises TimeoutError" 404 "JsonValue PyNone" TimeoutError]
    donations_extracted [of "Some ''tok''" "[(''meta'', PyInt 1), (''page'', PyInt 2)]"
      "RequestRaises TimeoutError" 404 "JsonValue PyNone" TimeoutError]
    donations_extracted [of None "[]" "RequestRaises TimeoutError" 404 "JsonValue PyNone"
      TimeoutError]
  by (simp add: key_missing_def is_Exception_def)

section \<open>Properties of the database service\<close>

lemma update_first_split:
  "find P xs = Some x \<Longrightarrow>
     \<exists>pre post. xs = pre @ x # post \<and> (\<forall>y\<in>set pre. \<not> P y) \<and>
        update_first P f xs = pre @ f x # post"
proof (induction xs)
  case Nil
  then show ?case by simp
next
  case (Cons y ys)
  show ?case
  proof (cases "P y")
    case True
    with Cons.prems have "y = x" by simp
    with True show ?thesis by (intro exI [of _ "[]"] exI [of _ ys]) auto
  next
    case False
    with Cons.prems have "find P ys = Some x" by simp
    from Cons.IH [OF this] obtain pre post where
      "ys = pre @ x # post" "\<forall>y\<in>set pre. \<not> P y" "update_first P f ys = pre @ f x # post"
      by blast
    with False show ?thesis
      by (intro exI [of _ "y # pre"] exI [of _ post]) auto
  qed
qed

lemma find_Some_holds: "find P xs = Some x \<Longrightarrow> P x"
  by (induction xs) (auto split: if_splits)

lemma find_after_prefix:
  "\<forall>y\<in>set pre. \<not> P y \<Longrightarrow> P z \<Longrightarrow> find P (pre @ z # post) = Some z"
  by (induction pre) auto

subsection \<open>Trial messages\<close>








subsection \<open>The subscription lifecycle\<close>

text \<open>
  Claim C5 on the code: with the trial count at 0 and no subscription
  \<open>has_active_subscription\<close> is false, and after \<open>create_subscription\<close> of type
  week it is true; but \<open>revoke_subscription\<close> raises NameError and sets no end
  date, so that \<open>has_active_subscription\<close> is still true after it.
\<close>

theorem revoke_raises_NameError:
  "map trial_messages_left (users lifecycle_trial_spent) = [0]
   \<and> \<not> has_active_subscription 1 1000 lifecycle_trial_spent
   \<and> has_active_subscription 1 1000 lifecycle_subscribed
   \<and> revoke_subscription ''alice'' 2000 lifecycle_subscribed = Inl NameError
   \<and> has_active_subscription 1 2000
        (apply_db_op (RevokeSubscription ''alice'' 2000) lifecycle_subscribed)"
  by (simp add: lifecycle_subscribed_def lifecycle_trial_spent_def lifecycle_created_def
        get_or_create_user_def get_user_by_telegram_id_def sqlite_integer_def
        empty_database_def next_id_def
        decrement_trial_message_def create_subscription_def subscription_end_def days_def
        Let_def has_active_subscription_def revoke_subscription_def unbound_self_def)

text \<open>The failure does not depend on the input.\<close>

lemma revoke_always_raises: "revoke_subscription uname now d = Inl NameError"
  by (simp add: revoke_subscription_def unbound_self_def)

text \<open>
  The statements under the \<open>async with\<close> are written to do what the claim says:
  run on the same tables they put the end date one minute into the past and the
  subscription is no longer active.
\<close>

lemma revoke_body_would_revoke:
  "fst (revoke_subscription_body ''alice'' 2000 lifecycle_subscribed) = Some 42
   \<and> map end_date
        (subscriptions (snd (revoke_subscription_body ''alice'' 2000 lifecycle_subscribed)))
       = [2000 - 60000000]
   \<and> \<not> has_active_subscription 1 2000
        (snd (revoke_subscription_body ''alice'' 2000 lifecycle_subscribed))"
  by (simp add: lifecycle_subscribed_def lifecycle_trial_spent_def lifecycle_created_def
        get_or_create_user_def get_user_by_telegram_id_def sqlite_integer_def
        empty_database_def next_id_def
        decrement_trial_message_def create_subscription_def subscription_end_def days_def
        Let_def has_active_subscription_def revoke_subscription_body_def one_minute_def)

subsection \<open>Payment links\<close>

lemma check_payment_keeps_tables:
  "check_payment B k oc uid d = Inr (r, d') \<Longrightarrow> d' = d"
  by (auto simp: check_payment_def split: option.splits if_splits sum.splits)

lemma mark_unpaid:
  assumes "get_payment_link uid d = Some p" and "\<not> paid p"
  shows "fst (mark_payment_as_paid uid d) = Some (p\<lparr>paid := True\<rparr>)"
    and "get_payment_link uid (snd (mark_payment_as_paid uid d)) = Some (p\<lparr>paid := True\<rparr>)"
    and "\<exists>pre post. payment_links d = pre @ p # post \<and>
           payment_links (snd (mark_payment_as_paid uid d)) = pre @ p\<lparr>paid := True\<rparr> # post"
    and "users (snd (mark_payment_as_paid uid d)) = users d"
    and "subscriptions (snd (mark_payment_as_paid uid d)) = subscriptions d"
proof -
  from assms(1) have f: "find (\<lambda>q. unique_id q = uid) (payment_links d) = Some p"
    by (simp add: get_payment_link_def)
  then have u: "unique_id p = uid" by (auto dest: find_Some_holds)
  from update_first_split [OF f, of "\<lambda>q. q\<lparr>paid := True\<rparr>"] obtain pre post where
    s: "payment_links d = pre @ p # post" "\<forall>y\<in>set pre. unique_id y \<noteq> uid"
       "update_first (\<lambda>q. unique_id q = uid) (\<lambda>q. q\<lparr>paid := True\<rparr>) (payment_links d)
          = pre @ p\<lparr>paid := True\<rparr> # post"
    by blast
  have m: "mark_payment_as_paid uid d =
             (Some (p\<lparr>paid := True\<rparr>), d\<lparr>payment_links := pre @ p\<lparr>paid := True\<rparr> # post\<rparr>)"
    using f assms(2) s(3) by (simp add: mark_payment_as_paid_def)
  show "fst (mark_payment_as_paid uid d) = Some (p\<lparr>paid := True\<rparr>)"
    by (simp add: m)
  show "get_payment_link uid (snd (mark_payment_as_paid uid d)) = Some (p\<lparr>paid := True\<rparr>)"
    using s(2) u by (simp add: m get_payment_link_def find_after_prefix)
  show "\<exists>pre post. payment_links d = pre @ p # post \<and>
           payment_links (snd (mark_payment_as_paid uid d)) = pre @ p\<lparr>paid := True\<rparr> # post"
    using s(1) by (intro exI [of _ pre] exI [of _ post]) (simp add: m)
  show "users (snd (mark_payment_as_paid uid d)) = users d"
    by (simp add: m)
  show "subscriptions (snd (mark_payment_as_paid uid d)) = subscriptions d"
    by (simp add: m)
qed

lemma mark_otherwise:
  assumes "get_payment_link uid d = None \<or> (\<exists>p. get_payment_link uid d = Some p \<and> paid p)"
  shows "mark_payment_as_paid uid d = (None, d)"
  using assms by (auto simp: mark_payment_as_paid_def get_payment_link_def)

lemma mark_twice: "fst (mark_payment_as_paid uid (snd (mark_payment_as_paid uid d))) = None"
proof (cases "get_payment_link uid d")
  case None
  then show ?thesis by (simp add: mark_otherwise)
next
  case (Some p)
  show ?thesis
  proof (cases "paid p")
    case True
    with Some show ?thesis by (simp add: mark_otherwise)
  next
    case False
    from mark_unpaid(2) [OF Some False]
    have "mark_payment_as_paid uid (snd (mark_payment_as_paid uid d))
            = (None, snd (mark_payment_as_paid uid d))"
      by (intro mark_otherwise) simp
    then show ?thesis by simp
  qed
qed

text \<open>
  Claim C10: for a link already marked paid \<open>check_payment\<close> returns the failure
  "Payment already processed" and the tables as they were, so no subscription is
  created; \<open>mark_payment_as_paid\<close> returns the link, marked, and marks it in the
  table exactly when the link exists and was not paid, leaving every other row as it
  was, and otherwise returns \<open>None\<close> and changes nothing; marking a second time
  returns \<open>None\<close>.
\<close>

theorem redeemed_at_most_once:
  "(\<forall>link. get_payment_link uid d = Some link \<and> paid link \<longrightarrow>
       check_payment B k oc uid d = Inr (Failure PaymentAlreadyProcessed, d))
   \<and> (\<forall>p. get_payment_link uid d = Some p \<and> \<not> paid p \<longrightarrow>
        fst (mark_payment_as_paid uid d) = Some (p\<lparr>paid := True\<rparr>) \<and>
        get_payment_link uid (snd (mark_payment_as_paid uid d)) = Some (p\<lparr>paid := True\<rparr>) \<and>
        (\<exists>pre post. payment_links d = pre @ p # post \<and>
           payment_links (snd (mark_payment_as_paid uid d)) = pre @ p\<lparr>paid := True\<rparr> # post) \<and>
        users (snd (mark_payment_as_paid uid d)) = users d \<and>
        subscriptions (snd (mark_payment_as_paid uid d)) = subscriptions d)
   \<and> (get_payment_link uid d = None \<or> (\<exists>p. get_payment_link uid d = Some p \<and> paid p)
        \<longrightarrow> mark_payment_as_paid uid d = (None, d))
   \<and> fst (mark_payment_as_paid uid (snd (mark_payment_as_paid uid d))) = None"
proof (intro conjI allI impI)
  fix link
  assume "get_payment_link uid d = Some link \<and> paid link"
  then show "check_payment B k oc uid d = Inr (Failure PaymentAlreadyProcessed, d)"
    by (simp add: check_payment_def)
next
  fix p
  assume "get_payment_link uid d = Some p \<and> \<not> paid p"
  then have g: "get_payment_link uid d = Some p" and n: "\<not> paid p" by simp_all
  show "fst (mark_payment_as_paid uid d) = Some (p\<lparr>paid := True\<rparr>)"
    by (rule mark_unpaid(1) [OF g n])
  show "get_payment_link uid (snd (mark_payment_as_paid uid d)) = Some (p\<lparr>paid := True\<rparr>)"
    by (rule mark_unpaid(2) [OF g n])
  show "\<exists>pre post. payment_links d = pre @ p # post \<and>
           payment_links (snd (mark_payment_as_paid uid d)) = pre @ p\<lparr>paid := True\<rparr> # post"
    by (rule mark_unpaid(3) [OF g n])
  show "users (snd (mark_payment_as_paid uid d)) = users d"
    by (rule mark_unpaid(4) [OF g n])
  show "subscriptions (snd (mark_payment_as_paid uid d)) = subscriptions d"
    by (rule mark_unpaid(5) [OF g n])
next
  assume "get_payment_link uid d = None \<or> (\<exists>p. get_payment_link uid d = Some p \<and> paid p)"
  then show "mark_payment_as_paid uid d = (None, d)" by (rule mark_otherwise)
next
  show "fst (mark_payment_as_paid uid (snd (mark_payment_as_paid uid d))) = None"
    by (rule mark_twice)
qed

theorem redeemed_at_most_once_witness:
  "fst (mark_payment_as_paid ''abc123'' pending_link_db)
     = Some \<lparr>pl_id = 1, telegram_user_id = 42, unique_id = ''abc123'',
             link_subscription_type = ''week'', amount = Finite 650, created_at = 500,
             paid = True\<rparr>
   \<and> map paid (payment_links (snd (mark_payment_as_paid ''abc123'' pending_link_db))) = [True]
   \<and> mark_payment_as_paid ''zzz'' pending_link_db = (None, pending_link_db)
   \<and> check_payment numeric_builtins (Some ''tok'')
        (Response 200 (JsonValue (PyDict [(''data'',
           PyList [PyDict [(''message'', PyStr ''abc123''), (''amount'', PyInt 650)]])])))
        ''abc123'' (snd (mark_payment_as_paid ''abc123'' pending_link_db))
      = Inr (Failure PaymentAlreadyProcessed,
             snd (mark_payment_as_paid ''abc123'' pending_link_db))"
  using redeemed_at_most_once [of "''abc123''" pending_link_db numeric_builtins
      "Some ''tok''"
      "Response 200 (JsonValue (PyDict [(''data'',
           PyList [PyDict [(''message'', PyStr ''abc123''), (''amount'', PyInt 650)]])]))"]
    redeemed_at_most_once [of "''zzz''" pending_link_db numeric_builtins "Some ''tok''"
      "RequestRaises TimeoutError"]
    redeemed_at_most_once [of "''abc123''"
      "snd (mark_payment_as_paid ''abc123'' pending_link_db)" numeric_builtins
      "Some ''tok''"
      "Response 200 (JsonValue (PyDict [(''data'',
           PyList [PyDict [(''message'', PyStr ''abc123''), (''amount'', PyInt 650)]])]))"]
  by (simp add: pending_link_db_def lifecycle_created_def get_or_create_user_def
        get_user_by_telegram_id_def sqlite_integer_def empty_database_def next_id_def
        create_payment_link_def
        get_payment_link_def mark_payment_as_paid_def Let_def)

text \<open>
  Claim C4 on the code: for the pending link \<open>abc123\<close> of amount 650 and a
  donation of 650 whose message holds the token, the loop of \<open>check_payment\<close>
  finds the donation, but \<open>check_payment\<close> does not report the match: the call
  that follows, \<open>DatabaseService.mark_payment_as_paid(unique_id)\<close> on the class,
  raises TypeError, the link stays unpaid and no subscription is created.
\<close>

theorem check_payment_match_raises:
  "get_payment_link ''abc123'' pending_link_db
     = Some \<lparr>pl_id = 1, telegram_user_id = 42, unique_id = ''abc123'',
               link_subscription_type = ''week'', amount = Finite 650, created_at = 500,
               paid = False\<rparr>
   \<and> find_donation numeric_builtins
        \<lparr>pl_id = 1, telegram_user_id = 42, unique_id = ''abc123'',
           link_subscription_type = ''week'', amount = Finite 650, created_at = 500,
           paid = False\<rparr>
        [PyDict [(''message'', PyStr ''abc123''), (''amount'', PyInt 650)]]
      = Some (PyDict [(''message'', PyStr ''abc123''), (''amount'', PyInt 650)])
   \<and> check_payment numeric_builtins (Some ''tok'')
        (Response 200 (JsonValue (PyDict [(''data'',
           PyList [PyDict [(''message'', PyStr ''abc123''), (''amount'', PyInt 650)]])])))
        ''abc123'' pending_link_db = Inl TypeError"
  by (simp add: pending_link_db_def lifecycle_created_def get_or_create_user_def
        get_user_by_telegram_id_def sqlite_integer_def empty_database_def next_id_def
        create_payment_link_def get_payment_link_def Let_def check_payment_def
        get_recent_donations_def key_missing_def extract_donations_def not_found_def
        donation_matches_def fge_def)

end
